theory Spec2Isabelle
  imports Complex_Main
begin

section \<open>Data model\<close>

text \<open>
  The script works on the event and track containers of the MIDI library it imports.
  An event carries a tick and, for note events, a pitch and a velocity.  A track is a
  list of events together with its mode flag \<open>relative\<close>.  Ticks read from a MIDI file
  are integers; the tracks produced by time scaling carry fractional ticks, so the
  event type is parametric in the tick type.
\<close>

text \<open>
  The exceptions of the script, and \<open>LibraryError\<close> for an exception raised inside an
  operator of the MIDI library.
\<close>

datatype error = IndexError | TypeError | ZeroDivisionError | LibraryError

datatype 'a event =
    NoteOnEvent 'a int int
  | NoteOffEvent 'a int int
  | MetaEvent 'a nat "nat list"
  | EndOfTrackEvent 'a

fun tick :: "'a event \<Rightarrow> 'a" where
  "tick (NoteOnEvent t p v) = t"
| "tick (NoteOffEvent t p v) = t"
| "tick (MetaEvent t k d) = t"
| "tick (EndOfTrackEvent t) = t"

fun set_tick :: "'b \<Rightarrow> 'a event \<Rightarrow> 'b event" where
  "set_tick t' (NoteOnEvent t p v) = NoteOnEvent t' p v"
| "set_tick t' (NoteOffEvent t p v) = NoteOffEvent t' p v"
| "set_tick t' (MetaEvent t k d) = MetaEvent t' k d"
| "set_tick t' (EndOfTrackEvent t) = EndOfTrackEvent t'"

text \<open>\<open>isinstance(e, Events.NoteOnEvent)\<close>\<close>

fun is_NoteOn :: "'a event \<Rightarrow> bool" where
  "is_NoteOn (NoteOnEvent t p v) = True"
| "is_NoteOn e = False"

text \<open>
  \<open>isinstance(e, Events.MetaEvent)\<close>.  End of track is MIDI meta event \<open>0x2F\<close>; its
  class derives from the meta event class.
\<close>

fun is_Meta :: "'a event \<Rightarrow> bool" where
  "is_Meta (MetaEvent t k d) = True"
| "is_Meta (EndOfTrackEvent t) = True"
| "is_Meta e = False"

text \<open>\<open>isinstance(e, Events.EndOfTrackEvent)\<close>\<close>

fun is_EndOfTrack :: "'a event \<Rightarrow> bool" where
  "is_EndOfTrack (EndOfTrackEvent t) = True"
| "is_EndOfTrack e = False"

record 'a track =
  events :: "'a event list"
  relative :: bool

section \<open>The script\<close>

subsection \<open>\<open>get_root\<close>\<close>

text \<open>
  The loop returns the pitch of the first note-on event; when the loop ends without
  one, the Python function falls off its end and returns \<open>None\<close>.
\<close>

fun get_root_events :: "'a event list \<Rightarrow> int option" where
  "get_root_events [] = None"
| "get_root_events (NoteOnEvent t p v # es) = Some p"
| "get_root_events (e # es) = get_root_events es"

definition get_root :: "'a track \<Rightarrow> int option" where
  "get_root trk = get_root_events (events trk)"

subsection \<open>\<open>fix_mary\<close>\<close>

fun fix_mary_event :: "'a event \<Rightarrow> 'a event" where
  "fix_mary_event (NoteOnEvent t p v) =
     (if v = 0 then NoteOffEvent t p v else NoteOnEvent t p v)"
| "fix_mary_event e = e"

definition fix_mary :: "'a track \<Rightarrow> 'a track" where
  "fix_mary trk = \<lparr>events = map fix_mary_event (events trk), relative = relative trk\<rparr>"

subsection \<open>\<open>get_ratio\<close>\<close>

text \<open>
  Python's power of floats rounds, and its rounding is not modelled: the power is the
  parameter \<open>float_pow\<close> of the model, and nothing proved below depends on its values.
  Division and multiplication of floats are idealised as real arithmetic.

  Where the model is run on a concrete melody, the real power \<open>powr\<close> stands for
  \<open>float_pow\<close>.  Those runs take a power of \<open>TWELVE_ROOT_TWO\<close> only with exponent 0,
  for a note at the pitch of the root, and that power is 1 for floats as for reals.
\<close>

definition TWELVE_ROOT_TWO :: "(real \<Rightarrow> real \<Rightarrow> real) \<Rightarrow> real" where
  "TWELVE_ROOT_TWO float_pow = float_pow 2 (1 / 12)"

definition Q_NOTE_PHRASE_LEN :: real where
  "Q_NOTE_PHRASE_LEN = 16"

definition get_ratio :: "(real \<Rightarrow> real \<Rightarrow> real) \<Rightarrow> int \<Rightarrow> int \<Rightarrow> real" where
  "get_ratio float_pow rt p =
     (let difference = p - rt in float_pow (TWELVE_ROOT_TWO float_pow) (of_int difference))"

subsection \<open>\<open>get_note_info\<close>\<close>

text \<open>
  A note tuple is (pitch, duration, tick).  The generator walks the track by index; at
  a note-on at index \<open>i\<close> it reads \<open>track[i+1].tick\<close>, which raises \<open>IndexError\<close> when
  \<open>i + 1\<close> is past the end.  \<open>note_items\<close> lists, in track order, what each step of
  the generator does: yield a tuple or raise.
\<close>

type_synonym 'a note_info = "int \<times> 'a \<times> 'a"

definition note_items :: "'a event list \<Rightarrow> (error + 'a note_info) list" where
  "note_items es =
     concat (map (\<lambda>i. case es ! i of
                         NoteOnEvent t p v \<Rightarrow>
                           [if Suc i < length es then Inr (p, tick (es ! Suc i), t)
                            else Inl IndexError]
                       | _ \<Rightarrow> [])
                 [0 ..< length es])"

text \<open>Consuming a generator to its end: the tuples yielded, or the first exception.\<close>

fun collect :: "(error + 'b) list \<Rightarrow> error + 'b list" where
  "collect [] = Inr []"
| "collect (Inl e # xs) = Inl e"
| "collect (Inr x # xs) = (case collect xs of Inl e \<Rightarrow> Inl e | Inr ys \<Rightarrow> Inr (x # ys))"

definition get_note_info :: "'a track \<Rightarrow> error + 'a note_info list" where
  "get_note_info trk = collect (note_items (events trk))"

subsection \<open>\<open>split_header_meta_events\<close>\<close>

text \<open>The index of the first event that is not a meta event, as the loop finds it.\<close>

fun first_non_meta :: "'a event list \<Rightarrow> nat option" where
  "first_non_meta [] = None"
| "first_non_meta (e # es) =
     (if \<not> is_Meta e then Some 0 else map_option Suc (first_non_meta es))"

definition split_header_meta_events :: "'a track \<Rightarrow> 'a track \<times> 'a track" where
  "split_header_meta_events trk =
     (case first_non_meta (events trk) of
        Some i \<Rightarrow> (\<lparr>events = take i (events trk), relative = relative trk\<rparr>,
                   \<lparr>events = drop i (events trk), relative = relative trk\<rparr>)
      | None \<Rightarrow> (\<lparr>events = [], relative = relative trk\<rparr>, trk))"

subsection \<open>Track operations of the MIDI library\<close>

text \<open>
  Modelled from the spec: \<open>make_ticks_abs\<close> and \<open>make_ticks_rel\<close>, the conversions
  between the two tick modes (a relative tick is the delta since the previous event,
  an absolute tick is the time since the start of the track).  A track already in
  the requested mode is returned as it is.
\<close>

fun running_ticks :: "'a::linordered_idom \<Rightarrow> 'a event list \<Rightarrow> 'a event list" where
  "running_ticks acc [] = []"
| "running_ticks acc (e # es) = set_tick (acc + tick e) e # running_ticks (acc + tick e) es"

fun delta_ticks :: "'a::linordered_idom \<Rightarrow> 'a event list \<Rightarrow> 'a event list" where
  "delta_ticks prev [] = []"
| "delta_ticks prev (e # es) = set_tick (tick e - prev) e # delta_ticks (tick e) es"

definition make_ticks_abs :: "'a::linordered_idom track \<Rightarrow> 'a track" where
  "make_ticks_abs trk =
     (if relative trk then \<lparr>events = running_ticks 0 (events trk), relative = False\<rparr>
      else trk)"

definition make_ticks_rel :: "'a::linordered_idom track \<Rightarrow> 'a track" where
  "make_ticks_rel trk =
     (if relative trk then trk
      else \<lparr>events = delta_ticks 0 (events trk), relative = True\<rparr>)"

text \<open>
  Modelled from the spec: the \<open>length\<close> property of a track.  In absolute mode it is
  the tick of the last event, in relative mode the sum of all deltas; it is invariant
  under mode conversion, so the empty track has length 0 in both modes.
\<close>

definition track_length :: "'a::linordered_idom track \<Rightarrow> 'a" where
  "track_length trk =
     (if relative trk then sum_list (map tick (events trk))
      else if events trk = [] then 0 else tick (last (events trk)))"

text \<open>
  Modelled from the spec: the track scaler, the operator \<open>/\<close> of a track and a number.
  Every tick, in whichever mode the track is in, is divided by the ratio; dividing by
  zero raises.
\<close>

definition track_div :: "real track \<Rightarrow> real \<Rightarrow> error + real track" where
  "track_div trk r =
     (if r = 0 then Inl ZeroDivisionError
      else Inr \<lparr>events = map (\<lambda>e. set_tick (tick e / r) e) (events trk),
                relative = relative trk\<rparr>)"

text \<open>
  The track repeater, the operator \<open>**\<close> of a track and a number, is the parameter
  \<open>pow_op\<close> of the model: it is code of the library, and the spec does not determine it
  (a final partial copy made of the events before \<open>f * length\<close> does not reach the
  length \<open>n * length\<close> that the spec also asks for).  It may raise.

  Modelled from the spec: the track repeater on a whole count \<open>k \<ge> 1\<close>, where the spec
  is definite: \<open>k\<close> back-to-back copies of the track, copy \<open>i\<close> with its absolute ticks
  rebased by \<open>i * length\<close>, in the mode of the operand.  \<open>whole_copies\<close> stands for the
  operator where the model is run on a concrete melody, always on a whole count; any
  other count is outside what it models, and it raises there.
\<close>

definition shift_tick :: "'a::linordered_idom \<Rightarrow> 'a event \<Rightarrow> 'a event" where
  "shift_tick d e = set_tick (tick e + d) e"

definition in_mode :: "bool \<Rightarrow> 'a::linordered_idom event list \<Rightarrow> 'a track" where
  "in_mode rel abs_es =
     (if rel then make_ticks_rel \<lparr>events = abs_es, relative = False\<rparr>
      else \<lparr>events = abs_es, relative = False\<rparr>)"

definition full_copies :: "real \<Rightarrow> nat \<Rightarrow> real event list \<Rightarrow> real event list" where
  "full_copies len k abs_es =
     concat (map (\<lambda>i. map (shift_tick (of_nat i * len)) abs_es) [0 ..< k])"

definition whole_copies :: "real track \<Rightarrow> real \<Rightarrow> error + real track" where
  "whole_copies trk n =
     (if 1 \<le> n \<and> n = of_int \<lfloor>n\<rfloor>
      then Inr (in_mode (relative trk)
                  (full_copies (track_length trk) (nat \<lfloor>n\<rfloor>) (events (make_ticks_abs trk))))
      else Inl LibraryError)"

text \<open>
  Modelled from the spec: the sequence sum, the operator \<open>+\<close> of two tracks.  The events
  of the second track are appended, their ticks rebased by the length of the first; the
  result is in the mode of the first operand.
\<close>

definition track_add :: "real track \<Rightarrow> real track \<Rightarrow> real track" where
  "track_add x y =
     in_mode (relative x)
       (events (make_ticks_abs x) @
        map (shift_tick (track_length x)) (events (make_ticks_abs y)))"

text \<open>
  A tick read from a file is an integer; Python's true division turns it into a
  float.  The conversions below are invisible in the source.
\<close>

definition real_event :: "int event \<Rightarrow> real event" where
  "real_event e = set_tick (of_int (tick e)) e"

definition real_track :: "int track \<Rightarrow> real track" where
  "real_track trk = \<lparr>events = map real_event (events trk), relative = relative trk\<rparr>"

definition real_note :: "int note_info \<Rightarrow> real note_info" where
  "real_note ni = (case ni of (p, d, t) \<Rightarrow> (p, of_int d, of_int t))"

subsection \<open>\<open>sort_ticks\<close>\<close>

text \<open>Python's \<open>sorted\<close> is stable, as \<open>sort_key\<close> is.\<close>

definition tick_key :: "'a::linordered_idom event \<Rightarrow> 'a" where
  "tick_key e = tick e * 10 + (if is_NoteOn e then 1 else 0)"

definition sort_ticks :: "'a::linordered_idom track \<Rightarrow> 'a track" where
  "sort_ticks trk0 =
     (let trk = make_ticks_abs trk0;
          es = sort_key tick_key (events trk);
          trk = \<lparr>events = es, relative = False\<rparr>
      in make_ticks_rel trk)"

subsection \<open>\<open>fractalize_note\<close>\<close>

text \<open>
  \<open>duration / resolution\<close> raises on a zero resolution, \<open>ratio_fn\<close>, the scaler and the
  repeater may raise, and \<open>fract[0]\<close> raises \<open>IndexError\<close> on a track without events.
\<close>

definition fractalize_note ::
  "(real track \<Rightarrow> real \<Rightarrow> error + real track) \<Rightarrow> real \<Rightarrow> (int \<Rightarrow> error + real)
     \<Rightarrow> real track \<Rightarrow> real note_info \<Rightarrow> error + real track" where
  "fractalize_note pow_op resolution ratio_fn trk ni =
     (case ni of (p, duration, tk) \<Rightarrow>
        if resolution = 0 then Inl ZeroDivisionError
        else
          (let quarter_notes = duration / resolution in
           (case ratio_fn p of
              Inl e \<Rightarrow> Inl e
            | Inr ratio \<Rightarrow>
               (let repetitions = Q_NOTE_PHRASE_LEN * quarter_notes * ratio in
                (case track_div trk ratio of
                   Inl e \<Rightarrow> Inl e
                 | Inr scaled \<Rightarrow>
                    (case pow_op scaled repetitions of
                       Inl e \<Rightarrow> Inl e
                     | Inr fract \<Rightarrow>
                        (case events fract of
                           [] \<Rightarrow> Inl IndexError
                         | e # es \<Rightarrow>
                             Inr \<lparr>events =
                                    set_tick
                                      (tk / resolution * track_length trk * Q_NOTE_PHRASE_LEN) e
                                      # es,
                                  relative = relative fract\<rparr>)))))))"

subsection \<open>\<open>fractalize_track\<close>\<close>

text \<open>
  \<open>reduce\<close> without an initial value over the generator expression: each step takes
  the next tuple from \<open>get_note_info\<close> (which may raise), fractalizes it (which may
  raise) and adds the block to the sum so far; on an empty sequence \<open>reduce\<close> raises
  \<open>TypeError\<close>.
\<close>

fun reduce_add ::
  "(real note_info \<Rightarrow> error + real track) \<Rightarrow> (error + real note_info) list
     \<Rightarrow> real track option \<Rightarrow> error + real track" where
  "reduce_add f [] None = Inl TypeError"
| "reduce_add f [] (Some acc) = Inr acc"
| "reduce_add f (Inl e # ns) acc = Inl e"
| "reduce_add f (Inr n # ns) acc =
     (case f n of
        Inl e \<Rightarrow> Inl e
      | Inr block \<Rightarrow>
          reduce_add f ns (Some (case acc of None \<Rightarrow> block | Some x \<Rightarrow> track_add x block)))"

text \<open>
  The closure \<open>ratio_wrt_root\<close> of \<open>fractalize_track\<close>, with the root it captures
  as a parameter.  The root is \<open>None\<close> when the track has no note-on; then
  \<open>pitch - root\<close> raises \<open>TypeError\<close>.
\<close>

definition ratio_wrt_root ::
  "(real \<Rightarrow> real \<Rightarrow> real) \<Rightarrow> int option \<Rightarrow> int \<Rightarrow> error + real" where
  "ratio_wrt_root float_pow rt p =
     (case rt of None \<Rightarrow> Inl TypeError | Some r \<Rightarrow> Inr (get_ratio float_pow r p))"

definition fractalize_track ::
  "(real \<Rightarrow> real \<Rightarrow> real) \<Rightarrow> (real track \<Rightarrow> real \<Rightarrow> error + real track)
     \<Rightarrow> int \<Rightarrow> int track \<Rightarrow> error + real track" where
  "fractalize_track float_pow pow_op resolution trk0 =
     (let trk = sort_ticks trk0;
          rt = get_root trk;
          note_tuples = note_items (events trk);
          (header, body) = split_header_meta_events trk
      in (case events body of
            [] \<Rightarrow> Inl IndexError
          | _ # _ \<Rightarrow>
             (let (endevent, body) =
                    (if is_EndOfTrack (last (events body))
                     then (Some (last (events body)),
                           \<lparr>events = butlast (events body), relative = relative body\<rparr>)
                     else (None, body));
                  f_note = fractalize_note pow_op (of_int resolution)
                             (ratio_wrt_root float_pow rt) (real_track body)
              in (case reduce_add f_note (map (map_sum id real_note) note_tuples) None of
                    Inl e \<Rightarrow> Inl e
                  | Inr fractal \<Rightarrow>
                     (let fractal =
                           (case endevent of
                              None \<Rightarrow> fractal
                            | Some e \<Rightarrow> \<lparr>events = events fractal @ [real_event e],
                                         relative = relative fractal\<rparr>)
                      in if resolution = 0 then Inl ZeroDivisionError
                         else
                           (case track_div fractal
                                   (track_length (real_track body) / of_int resolution
                                      * Q_NOTE_PHRASE_LEN) of
                              Inl e \<Rightarrow> Inl e
                            | Inr fractal \<Rightarrow> Inr (track_add (real_track header) fractal)))))))"

text \<open>The driver: the note normalizer runs on the track before \<open>fractalize_track\<close>.\<close>

definition main_pipeline ::
  "(real \<Rightarrow> real \<Rightarrow> real) \<Rightarrow> (real track \<Rightarrow> real \<Rightarrow> error + real track)
     \<Rightarrow> int \<Rightarrow> int track \<Rightarrow> error + real track" where
  "main_pipeline float_pow pow_op resolution trk =
     fractalize_track float_pow pow_op resolution (fix_mary trk)"

section \<open>Properties\<close>

subsection \<open>Note normalizer\<close>

lemma fix_mary_event_no_zero_on:
  "fix_mary_event e \<noteq> NoteOnEvent t p 0"
  by (cases e) auto

text \<open>
  C8.  The note normalizer keeps the mode flag and the number of events, and works
  position by position: a note-on with velocity 0 at position \<open>i\<close> becomes the note-off
  with the same tick, pitch and velocity at position \<open>i\<close>, every other event stays at
  its position unchanged.  The output contains no note-on with velocity 0.
\<close>

theorem fix_mary_rewrites_zero_velocity_note_on:
  "length (events (fix_mary trk)) = length (events trk)
   \<and> relative (fix_mary trk) = relative trk
   \<and> (\<forall>i < length (events trk).
        events (fix_mary trk) ! i =
          (case events trk ! i of
             NoteOnEvent t p v \<Rightarrow> if v = 0 then NoteOffEvent t p v else NoteOnEvent t p v
           | e \<Rightarrow> e))
   \<and> (\<forall>t p. NoteOnEvent t p 0 \<notin> set (events (fix_mary trk)))"
proof -
  have "\<forall>i < length (events trk).
        events (fix_mary trk) ! i =
          (case events trk ! i of
             NoteOnEvent t p v \<Rightarrow> if v = 0 then NoteOffEvent t p v else NoteOnEvent t p v
           | e \<Rightarrow> e)"
    by (auto simp: fix_mary_def split: event.splits)
  moreover have "\<forall>t p. NoteOnEvent t p 0 \<notin> set (events (fix_mary trk))"
    by (auto simp: fix_mary_def image_iff fix_mary_event_no_zero_on [symmetric])
  ultimately show ?thesis
    by (simp add: fix_mary_def)
qed

theorem fix_mary_rewrites_zero_velocity_note_on_witness:
  "events (fix_mary \<lparr>events = [MetaEvent (0::int) 3 [], NoteOnEvent 0 60 90,
       NoteOnEvent 96 60 0, EndOfTrackEvent 0], relative = True\<rparr>) ! 2 = NoteOffEvent 96 60 0
   \<and> NoteOnEvent (96::int) 60 0 \<notin> set (events (fix_mary \<lparr>events = [MetaEvent (0::int) 3 [],
       NoteOnEvent 0 60 90, NoteOnEvent 96 60 0, EndOfTrackEvent 0], relative = True\<rparr>))"
  using fix_mary_rewrites_zero_velocity_note_on
    [of "\<lparr>events = [MetaEvent (0::int) 3 [], NoteOnEvent 0 60 90,
       NoteOnEvent 96 60 0, EndOfTrackEvent 0], relative = True\<rparr>"]
  by simp

subsection \<open>Header splitter\<close>

lemma first_non_meta_eq:
  "first_non_meta es =
     (if \<forall>e \<in> set es. is_Meta e then None else Some (length (takeWhile is_Meta es)))"
  by (induction es) auto

lemma split_header_with_body:
  assumes "\<exists>e \<in> set (events trk). \<not> is_Meta e"
  shows "split_header_meta_events trk =
           (\<lparr>events = takeWhile is_Meta (events trk), relative = relative trk\<rparr>,
            \<lparr>events = dropWhile is_Meta (events trk), relative = relative trk\<rparr>)"
  using assms
  by (auto simp: split_header_meta_events_def first_non_meta_eq
        takeWhile_eq_take [symmetric] dropWhile_eq_drop [symmetric])

lemma split_header_all_meta:
  assumes "\<forall>e \<in> set (events trk). is_Meta e"
  shows "split_header_meta_events trk = (\<lparr>events = [], relative = relative trk\<rparr>, trk)"
  using assms by (simp add: split_header_meta_events_def first_non_meta_eq)

text \<open>
  C5 (as amended).  For a track with at least one event that is not a meta event, the
  header is the maximal leading run of meta events and the body is the rest, in order.
  For a track consisting entirely of meta events the loop finds no index and the
  function returns an empty header and the whole track as the body.
\<close>

theorem split_header_meta_events_leading_run:
  "((\<exists>e \<in> set (events trk). \<not> is_Meta e) \<longrightarrow>
      split_header_meta_events trk =
        (\<lparr>events = takeWhile is_Meta (events trk), relative = relative trk\<rparr>,
         \<lparr>events = dropWhile is_Meta (events trk), relative = relative trk\<rparr>))
   \<and> ((\<forall>e \<in> set (events trk). is_Meta e) \<longrightarrow>
      split_header_meta_events trk = (\<lparr>events = [], relative = relative trk\<rparr>, trk))"
  using split_header_with_body split_header_all_meta by blast

theorem split_header_meta_events_leading_run_witness:
  "split_header_meta_events
     \<lparr>events = [MetaEvent (0::int) 3 [], NoteOnEvent 0 60 90, NoteOffEvent 96 60 0,
                 EndOfTrackEvent 0], relative = True\<rparr>
   = (\<lparr>events = [MetaEvent 0 3 []], relative = True\<rparr>,
      \<lparr>events = [NoteOnEvent 0 60 90, NoteOffEvent 96 60 0, EndOfTrackEvent 0],
        relative = True\<rparr>)
   \<and> split_header_meta_events \<lparr>events = [MetaEvent (0::int) 3 []], relative = False\<rparr>
   = (\<lparr>events = [], relative = False\<rparr>, \<lparr>events = [MetaEvent 0 3 []], relative = False\<rparr>)"
  using split_header_meta_events_leading_run [of "\<lparr>events = [MetaEvent (0::int) 3 [], NoteOnEvent 0 60 90, NoteOffEvent 96 60 0,
                 EndOfTrackEvent 0], relative = True\<rparr>"]
     split_header_meta_events_leading_run [of "\<lparr>events = [MetaEvent (0::int) 3 []], relative = False\<rparr>"]
  by simp

text \<open>
  C5 as stated fails on a track of two meta events: the header is empty and the body is
  the whole track, not the other way round.
\<close>

theorem split_header_all_meta_counterexample:
  "split_header_meta_events
     \<lparr>events = [MetaEvent (0::int) 3 [], MetaEvent 0 81 [7]], relative = True\<rparr>
   = (\<lparr>events = [], relative = True\<rparr>,
      \<lparr>events = [MetaEvent 0 3 [], MetaEvent 0 81 [7]], relative = True\<rparr>)"
  by (simp add: split_header_meta_events_def)

subsection \<open>Root\<close>

lemma get_root_events_first:
  "\<forall>e \<in> set pre. \<not> is_NoteOn e \<Longrightarrow> get_root_events (pre @ NoteOnEvent t p v # post) = Some p"
proof (induction pre)
  case Nil then show ?case by simp
next
  case (Cons e pre) then show ?case by (cases e) simp_all
qed

lemma get_root_events_none:
  "\<forall>e \<in> set es. \<not> is_NoteOn e \<Longrightarrow> get_root_events es = None"
proof (induction es)
  case Nil then show ?case by simp
next
  case (Cons e es) then show ?case by (cases e) simp_all
qed

lemma first_note_on_split:
  assumes "\<exists>e \<in> set es. is_NoteOn e"
  shows "\<exists>pre t p v post. es = pre @ NoteOnEvent t p v # post \<and> (\<forall>e \<in> set pre. \<not> is_NoteOn e)"
proof -
  from assms obtain pre x post where s: "es = pre @ x # post" "is_NoteOn x"
    "\<forall>e \<in> set pre. \<not> is_NoteOn e"
    using split_list_first_prop [of es is_NoteOn] by blast
  from s(2) obtain t p v where "x = NoteOnEvent t p v" by (cases x) simp_all
  with s show ?thesis by blast
qed

subsection \<open>Note sequencer\<close>

lemma note_steps_in_range:
  assumes "\<forall>i \<in> set js. is_NoteOn (es ! i) \<longrightarrow> Suc i < length es"
  shows "concat (map (\<lambda>i. case es ! i of
                         NoteOnEvent t p v \<Rightarrow>
                           [if Suc i < length es then Inr (p, tick (es ! Suc i), t)
                            else Inl IndexError]
                       | _ \<Rightarrow> []) js) =
     map Inr (concat (map (\<lambda>i. case es ! i of
                         NoteOnEvent t p v \<Rightarrow> [(p, tick (es ! Suc i), t)]
                       | _ \<Rightarrow> []) js))"
proof -
  have "(case es ! i of
           NoteOnEvent t p v \<Rightarrow>
             [if Suc i < length es then Inr (p, tick (es ! Suc i), t) else Inl IndexError]
         | _ \<Rightarrow> [])
        = map Inr (case es ! i of NoteOnEvent t p v \<Rightarrow> [(p, tick (es ! Suc i), t)] | _ \<Rightarrow> [])"
    if "i \<in> set js" for i
    using that assms by (cases "es ! i") (auto dest!: bspec [of _ _ i])
  then have "map (\<lambda>i. case es ! i of
                         NoteOnEvent t p v \<Rightarrow>
                           [if Suc i < length es then Inr (p, tick (es ! Suc i), t)
                            else Inl IndexError]
                       | _ \<Rightarrow> []) js
      = map (\<lambda>i. map Inr (case es ! i of NoteOnEvent t p v \<Rightarrow> [(p, tick (es ! Suc i), t)] | _ \<Rightarrow> []))
          js"
    by (intro map_cong refl)
  then show ?thesis
    unfolding map_concat map_map comp_def
    by (rule arg_cong [where f = concat])
qed

lemma collect_all_ok: "collect (map Inr xs) = Inr xs"
  by (induction xs) simp_all

lemma collect_first_error: "collect (map Inr xs @ Inl e # rest) = Inl e"
  by (induction xs) simp_all

lemma length_filter_sum: "length (filter P xs) = (\<Sum>x\<leftarrow>xs. if P x then 1 else 0)"
  by (induction xs) simp_all

lemma one_tuple_per_note_on:
  "length (concat (map (\<lambda>i. case es ! i of
                         NoteOnEvent t p v \<Rightarrow> [(p, tick (es ! Suc i), t)]
                       | _ \<Rightarrow> []) [0 ..< length es]))
   = length (filter is_NoteOn es)"
proof -
  have "length (filter is_NoteOn es) = length (filter is_NoteOn (map (nth es) [0 ..< length es]))"
    by (simp add: map_nth)
  also have "\<dots> = (\<Sum>i\<leftarrow>[0 ..< length es]. if is_NoteOn (es ! i) then 1 else 0)"
    by (simp add: filter_map length_filter_sum comp_def)
  finally have r: "length (filter is_NoteOn es)
      = (\<Sum>i\<leftarrow>[0 ..< length es]. if is_NoteOn (es ! i) then 1 else 0)" .
  have "length (case es ! i of NoteOnEvent t p v \<Rightarrow> [(p, tick (es ! Suc i), t)] | _ \<Rightarrow> [])
        = (if is_NoteOn (es ! i) then 1 else 0)" for i
    by (cases "es ! i") simp_all
  then show ?thesis
    by (simp add: length_concat comp_def r)
qed

text \<open>
  C10.  When every note-on has an event after it, the lookup at \<open>i + 1\<close> is in range
  at each note-on: the generator yields one tuple per note-on, (pitch, tick of the next
  event, own tick), and raises nothing.  When the last event of the track is a note-on,
  the lookup for it is out of range and the generator raises \<open>IndexError\<close>.
\<close>

theorem get_note_info_lookup_range:
  "((\<forall>i < length (events trk). is_NoteOn (events trk ! i) \<longrightarrow> Suc i < length (events trk)) \<longrightarrow>
      (\<exists>ns. get_note_info trk = Inr ns
         \<and> length ns = length (filter is_NoteOn (events trk))
         \<and> ns = concat (map (\<lambda>i. case events trk ! i of
                                    NoteOnEvent t p v \<Rightarrow> [(p, tick (events trk ! Suc i), t)]
                                  | _ \<Rightarrow> [])
                            [0 ..< length (events trk)])))
   \<and> (events trk \<noteq> [] \<and> is_NoteOn (last (events trk)) \<longrightarrow>
        get_note_info trk = Inl IndexError)"
proof (intro conjI impI)
  assume "\<forall>i < length (events trk). is_NoteOn (events trk ! i) \<longrightarrow> Suc i < length (events trk)"
  then have "note_items (events trk) =
     map Inr (concat (map (\<lambda>i. case events trk ! i of
                         NoteOnEvent t p v \<Rightarrow> [(p, tick (events trk ! Suc i), t)]
                       | _ \<Rightarrow> []) [0 ..< length (events trk)]))"
    unfolding note_items_def by (intro note_steps_in_range) simp
  then show "\<exists>ns. get_note_info trk = Inr ns
         \<and> length ns = length (filter is_NoteOn (events trk))
         \<and> ns = concat (map (\<lambda>i. case events trk ! i of
                                    NoteOnEvent t p v \<Rightarrow> [(p, tick (events trk ! Suc i), t)]
                                  | _ \<Rightarrow> [])
                            [0 ..< length (events trk)])"
    by (simp add: get_note_info_def collect_all_ok one_tuple_per_note_on)
next
  assume a: "events trk \<noteq> [] \<and> is_NoteOn (last (events trk))"
  define es where "es = events trk"
  define n where "n = length es - 1"
  from a have len: "length es = Suc n"
    by (simp add: es_def n_def)
  from a have lst: "is_NoteOn (es ! n)"
    using last_conv_nth [of es] by (simp add: es_def n_def)
  from lst obtain t p v where e: "es ! n = NoteOnEvent t p v"
    by (cases "es ! n") simp_all
  have "concat (map (\<lambda>i. case es ! i of
                         NoteOnEvent t p v \<Rightarrow>
                           [if Suc i < length es then Inr (p, tick (es ! Suc i), t)
                            else Inl IndexError]
                       | _ \<Rightarrow> []) [0 ..< n]) =
     map Inr (concat (map (\<lambda>i. case es ! i of
                         NoteOnEvent t p v \<Rightarrow> [(p, tick (es ! Suc i), t)]
                       | _ \<Rightarrow> []) [0 ..< n]))"
    by (intro note_steps_in_range) (simp add: len)
  then have "\<exists>xs. note_items es = map Inr xs @ [Inl IndexError]"
    by (simp add: note_items_def len e)
  then show "get_note_info trk = Inl IndexError"
    by (auto simp: get_note_info_def es_def [symmetric] collect_first_error)
qed

theorem get_note_info_lookup_range_witness:
  "get_note_info \<lparr>events = [NoteOnEvent (0::int) 60 90, NoteOffEvent 96 60 0,
        NoteOnEvent 0 62 90, NoteOffEvent 48 62 0], relative = True\<rparr>
     = Inr [(60, 96, 0), (62, 48, 0)]
   \<and> get_note_info \<lparr>events = [NoteOnEvent (0::int) 60 90, NoteOffEvent 96 60 0,
        NoteOnEvent 0 62 90], relative = True\<rparr> = Inl IndexError"
  using get_note_info_lookup_range [of "\<lparr>events = [NoteOnEvent (0::int) 60 90, NoteOffEvent 96 60 0,
        NoteOnEvent 0 62 90, NoteOffEvent 48 62 0], relative = True\<rparr>"]
    get_note_info_lookup_range [of "\<lparr>events = [NoteOnEvent (0::int) 60 90, NoteOffEvent 96 60 0,
        NoteOnEvent 0 62 90], relative = True\<rparr>"]
  by (simp add: less_Suc_eq upt_rec [of 0] numeral_eq_Suc)

subsection \<open>Events and tick modes\<close>

lemma tick_set_tick [simp]: "tick (set_tick a e) = a"
  by (cases e) simp_all

lemma set_tick_set_tick [simp]: "set_tick a (set_tick b e) = set_tick a e"
  by (cases e) simp_all

lemma set_tick_tick [simp]: "set_tick (tick e) e = e"
  by (cases e) simp_all

lemma is_NoteOn_set_tick [simp]: "is_NoteOn (set_tick a e) = is_NoteOn e"
  by (cases e) simp_all

lemma is_Meta_set_tick [simp]: "is_Meta (set_tick a e) = is_Meta e"
  by (cases e) simp_all

lemma is_EndOfTrack_set_tick [simp]: "is_EndOfTrack (set_tick a e) = is_EndOfTrack e"
  by (cases e) simp_all

lemma running_delta_ticks: "running_ticks p (delta_ticks p es) = es"
  by (induction es arbitrary: p) simp_all

lemma length_running_ticks [simp]: "length (running_ticks p es) = length es"
  by (induction es arbitrary: p) simp_all

lemma length_delta_ticks [simp]: "length (delta_ticks p es) = length es"
  by (induction es arbitrary: p) simp_all

lemma sort_ticks_events:
  "sort_ticks trk =
     \<lparr>events = delta_ticks 0 (sort_key tick_key (events (make_ticks_abs trk))), relative = True\<rparr>"
  by (simp add: sort_ticks_def make_ticks_rel_def Let_def)

lemma make_ticks_abs_sort_ticks:
  "make_ticks_abs (sort_ticks trk) =
     \<lparr>events = sort_key tick_key (events (make_ticks_abs trk)), relative = False\<rparr>"
  by (simp add: sort_ticks_events make_ticks_abs_def running_delta_ticks)

lemma sort_ticks_idem: "sort_ticks (sort_ticks trk) = sort_ticks trk"
proof -
  have "sort_key tick_key (sort_key tick_key (events (make_ticks_abs trk)))
        = sort_key tick_key (events (make_ticks_abs trk))"
    by (rule sort_key_id_if_sorted) (rule sorted_sort_key)
  then show ?thesis
    by (simp add: sort_ticks_events [of "sort_ticks trk"] make_ticks_abs_sort_ticks)
       (simp add: sort_ticks_events)
qed

subsection \<open>Tick sorter\<close>

text \<open>
  On integer ticks the sort key \<open>tick * 10 + isinstance(e, NoteOnEvent)\<close> orders by tick
  first and, at one tick, puts note-on events last.
\<close>

lemma tick_key_le_int:
  fixes a b :: "int event"
  assumes "tick_key a \<le> tick_key b"
  shows "tick a < tick b \<or> (tick a = tick b \<and> (is_NoteOn a \<longrightarrow> is_NoteOn b))"
  using assms by (auto simp: tick_key_def split: if_splits)

lemma sorted_by_key_int:
  fixes es :: "int event list"
  assumes "sorted (map tick_key es)"
  shows "sorted (map tick es)"
    and "\<forall>i j. i < j \<and> j < length es \<and> tick (es ! i) = tick (es ! j) \<and> is_NoteOn (es ! i)
            \<longrightarrow> is_NoteOn (es ! j)"
proof -
  have k: "tick_key (es ! i) \<le> tick_key (es ! j)" if "i \<le> j" "j < length es" for i j
    using assms that by (auto simp: sorted_iff_nth_mono dest!: spec [of _ i] spec [of _ j])
  show "sorted (map tick es)"
    unfolding sorted_iff_nth_mono
  proof (intro allI impI)
    fix i j
    assume "i \<le> j" "j < length (map tick es)"
    then have "tick_key (es ! i) \<le> tick_key (es ! j)" and "i < length es"
      using k [of i j] by simp_all
    with tick_key_le_int [of "es ! i" "es ! j"] \<open>j < length (map tick es)\<close>
    show "map tick es ! i \<le> map tick es ! j" by auto
  qed
  show "\<forall>i j. i < j \<and> j < length es \<and> tick (es ! i) = tick (es ! j) \<and> is_NoteOn (es ! i)
            \<longrightarrow> is_NoteOn (es ! j)"
  proof (intro allI impI)
    fix i j
    assume a: "i < j \<and> j < length es \<and> tick (es ! i) = tick (es ! j) \<and> is_NoteOn (es ! i)"
    then have "tick_key (es ! i) \<le> tick_key (es ! j)" using k [of i j] by simp
    from tick_key_le_int [OF this] a show "is_NoteOn (es ! j)" by simp
  qed
qed

text \<open>
  C6 (as amended).  For a track with integer ticks, as a MIDI file has them: in the
  output of the tick sorter, read in absolute ticks, the ticks are nondecreasing, and
  of two events at the same absolute tick a note-on is never in front of an event that
  is not a note-on.
\<close>

theorem sort_ticks_orders_by_tick_then_note_on:
  fixes trk :: "int track"
  shows "sorted (map tick (events (make_ticks_abs (sort_ticks trk))))
    \<and> (\<forall>i j. i < j \<and> j < length (events (make_ticks_abs (sort_ticks trk)))
           \<and> tick (events (make_ticks_abs (sort_ticks trk)) ! i)
               = tick (events (make_ticks_abs (sort_ticks trk)) ! j)
           \<and> is_NoteOn (events (make_ticks_abs (sort_ticks trk)) ! i)
          \<longrightarrow> is_NoteOn (events (make_ticks_abs (sort_ticks trk)) ! j))"
proof -
  have "sorted (map tick_key (events (make_ticks_abs (sort_ticks trk))))"
    by (simp add: make_ticks_abs_sort_ticks)
  from sorted_by_key_int [OF this] show ?thesis by blast
qed

theorem sort_ticks_orders_by_tick_then_note_on_witness:
  "events (make_ticks_abs (sort_ticks \<lparr>events = [NoteOnEvent (0::int) 60 90, NoteOnEvent 96 62 90,
       NoteOffEvent 0 60 0, NoteOnEvent 0 64 90], relative = True\<rparr>))
     = [NoteOnEvent 0 60 90, NoteOffEvent 96 60 0, NoteOnEvent 96 62 90, NoteOnEvent 96 64 90]
   \<and> sorted (map tick (events (make_ticks_abs (sort_ticks \<lparr>events = [NoteOnEvent (0::int) 60 90,
       NoteOnEvent 96 62 90, NoteOffEvent 0 60 0, NoteOnEvent 0 64 90], relative = True\<rparr>))))
   \<and> is_NoteOn (events (make_ticks_abs (sort_ticks \<lparr>events = [NoteOnEvent (0::int) 60 90,
       NoteOnEvent 96 62 90, NoteOffEvent 0 60 0, NoteOnEvent 0 64 90], relative = True\<rparr>)) ! 3)"
  using sort_ticks_orders_by_tick_then_note_on [of "\<lparr>events = [NoteOnEvent (0::int) 60 90, NoteOnEvent 96 62 90,
       NoteOffEvent 0 60 0, NoteOnEvent 0 64 90], relative = True\<rparr>"]
  by (simp add: sort_ticks_def make_ticks_abs_def make_ticks_rel_def tick_key_def)

text \<open>
  C6 as stated fails on fractional ticks, which the scaled tracks of the script carry:
  a note-on at tick 0 has key 1, a note-off at tick 1/16 has key 0.625, and the sorter
  puts the later event first.
\<close>

theorem sort_ticks_fractional_ticks_counterexample:
  "events (make_ticks_abs (sort_ticks \<lparr>events = [NoteOnEvent (0::real) 60 90,
       NoteOffEvent (1 / 16) 60 0], relative = True\<rparr>))
     = [NoteOffEvent (1 / 16) 60 0, NoteOnEvent 0 60 90]
   \<and> \<not> sorted (map tick (events (make_ticks_abs (sort_ticks \<lparr>events =
       [NoteOnEvent (0::real) 60 90, NoteOffEvent (1 / 16) 60 0], relative = True\<rparr>))))"
  by (simp add: sort_ticks_def make_ticks_abs_def make_ticks_rel_def tick_key_def)

text \<open>
  C7.  Sorting a sorted track changes nothing: the same events, ticks and order.
\<close>

theorem sort_ticks_idempotent: "sort_ticks (sort_ticks trk) = sort_ticks trk"
  by (rule sort_ticks_idem)

subsection \<open>Tracks without a note-on\<close>

lemma note_on_running_ticks [simp]:
  "(\<exists>e \<in> set (running_ticks p es). is_NoteOn e) = (\<exists>e \<in> set es. is_NoteOn e)"
  by (induction es arbitrary: p) simp_all

lemma note_on_delta_ticks [simp]:
  "(\<exists>e \<in> set (delta_ticks p es). is_NoteOn e) = (\<exists>e \<in> set es. is_NoteOn e)"
  by (induction es arbitrary: p) simp_all

lemma note_on_sort_ticks:
  "(\<exists>e \<in> set (events (sort_ticks trk)). is_NoteOn e) = (\<exists>e \<in> set (events trk). is_NoteOn e)"
  by (simp add: sort_ticks_events make_ticks_abs_def)

lemma length_sort_ticks: "length (events (sort_ticks trk)) = length (events trk)"
  by (simp add: sort_ticks_events make_ticks_abs_def)

lemma note_items_no_note_on:
  assumes "\<forall>e \<in> set es. \<not> is_NoteOn e"
  shows "note_items es = []"
proof -
  have "(case es ! i of
           NoteOnEvent t p v \<Rightarrow>
             [if Suc i < length es then Inr (p, tick (es ! Suc i), t) else Inl IndexError]
         | _ \<Rightarrow> []) = []" if "i < length es" for i
    using assms nth_mem [OF that] by (cases "es ! i") auto
  then show ?thesis by (simp add: note_items_def)
qed

lemma split_body_empty_iff:
  "events (snd (split_header_meta_events trk)) = [] \<longleftrightarrow> events trk = []"
proof (cases "\<forall>e \<in> set (events trk). is_Meta e")
  case True
  then show ?thesis by (simp add: split_header_all_meta)
next
  case False
  then have "\<exists>e \<in> set (events trk). \<not> is_Meta e" by blast
  from split_header_with_body [OF this] False show ?thesis
    by (auto simp: dropWhile_eq_Nil_conv)
qed

lemma fractalize_track_no_note_on:
  assumes "\<forall>e \<in> set (events trk). \<not> is_NoteOn e"
  shows "fractalize_track float_pow pow_op resolution trk =
           (if events trk = [] then Inl IndexError else Inl TypeError)"
proof -
  from assms have "\<forall>e \<in> set (events (sort_ticks trk)). \<not> is_NoteOn e"
    using note_on_sort_ticks [of trk] by blast
  then have n: "note_items (events (sort_ticks trk)) = []"
    by (rule note_items_no_note_on)
  have e: "events (snd (split_header_meta_events (sort_ticks trk))) = [] \<longleftrightarrow> events trk = []"
    using split_body_empty_iff [of "sort_ticks trk"] length_sort_ticks [of trk] by auto
  show ?thesis
    using e
    by (auto simp: fractalize_track_def Let_def n split: prod.splits list.splits)
qed

text \<open>
  C3 (as amended).  On a track without a note-on event \<open>get_root\<close> returns \<open>None\<close>;
  the script has no \<open>EmptyMelodyError\<close>.  \<open>fractalize_track\<close> on such a track then
  fails in \<open>track[-1]\<close> with \<open>IndexError\<close> when the track is empty, and otherwise in
  \<open>reduce\<close> over the empty note sequence with \<open>TypeError\<close>.  On a track with a note-on
  event \<open>get_root\<close> returns the pitch of the first one in track order.
\<close>

theorem get_root_and_empty_melody:
  fixes trk :: "int track"
  shows "((\<forall>e \<in> set (events trk). \<not> is_NoteOn e) \<longrightarrow>
        get_root trk = None
        \<and> fractalize_track float_pow pow_op resolution trk =
            (if events trk = [] then Inl IndexError else Inl TypeError))
   \<and> ((\<exists>e \<in> set (events trk). is_NoteOn e) \<longrightarrow>
        (\<exists>pre t p v post. events trk = pre @ NoteOnEvent t p v # post
            \<and> (\<forall>e \<in> set pre. \<not> is_NoteOn e) \<and> get_root trk = Some p))"
proof (intro conjI impI)
  assume "\<forall>e \<in> set (events trk). \<not> is_NoteOn e"
  then show "get_root trk = None"
    by (simp add: get_root_def get_root_events_none)
next
  assume "\<forall>e \<in> set (events trk). \<not> is_NoteOn e"
  then show "fractalize_track float_pow pow_op resolution trk =
            (if events trk = [] then Inl IndexError else Inl TypeError)"
    by (rule fractalize_track_no_note_on)
next
  assume "\<exists>e \<in> set (events trk). is_NoteOn e"
  from first_note_on_split [OF this] obtain pre t p v post
    where s: "events trk = pre @ NoteOnEvent t p v # post" "\<forall>e \<in> set pre. \<not> is_NoteOn e"
    by blast
  then have "get_root trk = Some p"
    by (simp add: get_root_def get_root_events_first)
  with s show "\<exists>pre t p v post. events trk = pre @ NoteOnEvent t p v # post
            \<and> (\<forall>e \<in> set pre. \<not> is_NoteOn e) \<and> get_root trk = Some p"
    by blast
qed

theorem get_root_and_empty_melody_witness:
  "get_root \<lparr>events = [MetaEvent (0::int) 3 [], EndOfTrackEvent 0], relative = True\<rparr> = None
   \<and> fractalize_track (powr) whole_copies 96
       \<lparr>events = [MetaEvent 0 3 [], EndOfTrackEvent 0], relative = True\<rparr>
       = Inl TypeError
   \<and> get_root \<lparr>events = [MetaEvent (0::int) 3 [], NoteOffEvent 0 59 0, NoteOnEvent 0 60 90,
        NoteOnEvent 96 62 90, EndOfTrackEvent 0], relative = True\<rparr> = Some 60"
  using get_root_and_empty_melody
      [of "\<lparr>events = [MetaEvent (0::int) 3 [], EndOfTrackEvent 0], relative = True\<rparr>"
        "(powr)" whole_copies 96]
    get_root_and_empty_melody [of "\<lparr>events = [MetaEvent (0::int) 3 [], NoteOffEvent 0 59 0, NoteOnEvent 0 60 90,
        NoteOnEvent 96 62 90, EndOfTrackEvent 0], relative = True\<rparr>" "(powr)" whole_copies 96]
  by (simp add: get_root_def)

text \<open>
  C3 as stated fails on a track of a note-off and the end of track: \<open>get_root\<close>
  returns \<open>None\<close> instead of raising, and \<open>fractalize_track\<close> raises \<open>TypeError\<close>.
\<close>

theorem get_root_no_note_on_counterexample:
  "get_root \<lparr>events = [NoteOffEvent (0::int) 60 0, EndOfTrackEvent 0], relative = True\<rparr> = None
   \<and> fractalize_track (powr) whole_copies 96
       \<lparr>events = [NoteOffEvent 0 60 0, EndOfTrackEvent 0], relative = True\<rparr>
       = Inl TypeError"
  by (simp add: get_root_def fractalize_track_no_note_on)

subsection \<open>Track fractalizer: what runs first\<close>

text \<open>
  C2 (as amended).  \<open>fractalize_track\<close> starts with the tick sorter: its result on a
  track is its result on the sorted track.  It does not run the note normalizer; the
  driver does, on the track it then passes to \<open>fractalize_track\<close>.
\<close>

theorem fractalize_track_sorts_first:
  "fractalize_track float_pow pow_op resolution trk
     = fractalize_track float_pow pow_op resolution (sort_ticks trk)
   \<and> main_pipeline float_pow pow_op resolution trk
     = fractalize_track float_pow pow_op resolution (fix_mary trk)"
  by (simp add: fractalize_track_def sort_ticks_idem main_pipeline_def)

lemmas model_defs = fractalize_track_def fractalize_note_def sort_ticks_def make_ticks_abs_def
  make_ticks_rel_def tick_key_def get_root_def note_items_def split_header_meta_events_def
  real_track_def real_event_def real_note_def get_ratio_def TWELVE_ROOT_TWO_def
  Q_NOTE_PHRASE_LEN_def track_div_def whole_copies_def track_length_def in_mode_def
  full_copies_def shift_tick_def track_add_def fix_mary_def ratio_wrt_root_def

text \<open>
  A melody whose note ends with a velocity-0 note-on.  Without the normalizer the
  sorter puts that note-on behind the end of track, and the duration lookup for it is
  out of range; after the normalizer the melody is fractalized.
\<close>

lemma zero_velocity_melody_unnormalized: "fractalize_track (powr) whole_copies 96
    \<lparr>events = [NoteOnEvent 0 60 90, NoteOnEvent 96 60 0,
       EndOfTrackEvent 0], relative = True\<rparr> = Inl IndexError"
  by (simp add: model_defs Let_def upt_rec [of 0] numeral_eq_Suc)

lemma zero_velocity_melody_normalized: "fractalize_track (powr) whole_copies 96
    (fix_mary \<lparr>events = [NoteOnEvent 0 60 90, NoteOnEvent 96 60 0,
       EndOfTrackEvent 0], relative = True\<rparr>) \<noteq> Inl IndexError"
  by (simp add: model_defs Let_def upt_rec [of 0] numeral_eq_Suc)

text \<open>
  C2 as stated fails on that melody: the result on the track is \<open>IndexError\<close>, the
  result on the normalizer's output of the track is a track.
\<close>

theorem fractalize_track_without_normalizer_counterexample:
  "fractalize_track (powr) whole_copies 96
      \<lparr>events = [NoteOnEvent 0 60 90, NoteOnEvent 96 60 0,
       EndOfTrackEvent 0], relative = True\<rparr> = Inl IndexError
   \<and> fractalize_track (powr) whole_copies 96
       \<lparr>events = [NoteOnEvent 0 60 90, NoteOnEvent 96 60 0,
       EndOfTrackEvent 0], relative = True\<rparr>
     \<noteq> fractalize_track (powr) whole_copies 96
         (fix_mary \<lparr>events = [NoteOnEvent 0 60 90, NoteOnEvent 96 60 0,
       EndOfTrackEvent 0], relative = True\<rparr>)"
  using zero_velocity_melody_unnormalized zero_velocity_melody_normalized by simp

subsection \<open>Whole copies of a track\<close>

lemma sum_delta_ticks:
  "sum_list (map tick (delta_ticks p es)) = (if es = [] then 0 else tick (last es) - p)"
  by (induction es arbitrary: p) auto

lemma running_ticks_Nil_iff [simp]: "running_ticks p es = [] \<longleftrightarrow> es = []"
  by (cases es) simp_all

lemma last_running_ticks:
  "es \<noteq> [] \<Longrightarrow> tick (last (running_ticks p es)) = p + sum_list (map tick es)"
proof (induction es arbitrary: p)
  case Nil
  then show ?case by simp
next
  case (Cons a es)
  show ?case
  proof (cases "es = []")
    case True
    then show ?thesis by simp
  next
    case False
    from Cons.IH [OF this, of "p + tick a"] False show ?thesis
      by (simp add: add.assoc)
  qed
qed

lemma track_length_abs:
  "track_length trk =
     (if events (make_ticks_abs trk) = [] then 0 else tick (last (events (make_ticks_abs trk))))"
  by (simp add: track_length_def make_ticks_abs_def last_running_ticks)

lemma abs_in_mode: "events (make_ticks_abs (in_mode rel es)) = es"
  by (simp add: in_mode_def make_ticks_abs_def make_ticks_rel_def running_delta_ticks)

lemma relative_in_mode: "relative (in_mode rel es) = rel"
  by (simp add: in_mode_def make_ticks_rel_def)

lemma track_length_in_mode:
  "track_length (in_mode rel es) = (if es = [] then 0 else tick (last es))"
  using track_length_abs [of "in_mode rel es"] by (simp add: abs_in_mode)

lemma tick_shift_tick [simp]: "tick (shift_tick d e) = tick e + d"
  by (simp add: shift_tick_def)

lemma full_copies_Suc:
  "full_copies len (Suc k) es = full_copies len k es @ map (shift_tick (of_nat k * len)) es"
  by (simp add: full_copies_def)

lemma full_copies_Nil_iff: "full_copies len k es = [] \<longleftrightarrow> k = 0 \<or> es = []"
proof (induction k)
  case 0
  show ?case by (simp add: full_copies_def)
next
  case (Suc k)
  then show ?case by (auto simp: full_copies_Suc)
qed

lemma last_full_copies:
  assumes "es \<noteq> []" "0 < k"
  shows "tick (last (full_copies len k es)) = tick (last es) + (of_nat k - 1) * len"
proof -
  from assms(2) obtain k' where k: "k = Suc k'" by (cases k) simp_all
  show ?thesis using assms(1)
    by (simp add: k full_copies_Suc last_map)
qed

text \<open>
  On a whole count \<open>k \<ge> 1\<close> the result of \<open>whole_copies\<close> has \<open>k\<close> times the length of
  the track, as the spec asks of the repeater.
\<close>

lemma whole_copies_length:
  assumes "whole_copies trk n = Inr r"
  shows "track_length r = n * track_length trk"
proof -
  define k where "k = nat \<lfloor>n\<rfloor>"
  define A where "A = events (make_ticks_abs trk)"
  from assms have n1: "1 \<le> n" and nw: "n = of_int \<lfloor>n\<rfloor>"
    and r: "r = in_mode (relative trk) (full_copies (track_length trk) k A)"
    by (auto simp: whole_copies_def k_def A_def split: if_splits)
  from n1 nw have n: "n = of_nat k" and k: "0 < k"
    by (simp_all add: k_def)
  have L: "track_length trk = (if A = [] then 0 else tick (last A))"
    unfolding A_def by (rule track_length_abs)
  have "track_length r =
          (if full_copies (track_length trk) k A = [] then 0
           else tick (last (full_copies (track_length trk) k A)))"
    by (simp add: r track_length_in_mode)
  also have "\<dots> = n * track_length trk"
  proof (cases "A = []")
    case True
    then show ?thesis using L by (simp add: full_copies_Nil_iff)
  next
    case False
    from last_full_copies [OF False k, of "track_length trk"]
    have "tick (last (full_copies (track_length trk) k A))
            = tick (last A) + (of_nat k - 1) * track_length trk" .
    also have "\<dots> = of_nat k * track_length trk"
      using L False by (simp add: algebra_simps)
    finally show ?thesis
      using False k n by (simp add: full_copies_Nil_iff)
  qed
  finally show ?thesis .
qed

subsection \<open>Note fractalizer\<close>

text \<open>
  C1 (as amended).  With a nonzero resolution, when the ratio function, the scaler and
  the repeater return their results and the repeated track has a first event,
  \<open>fractalize_note\<close> returns \<open>repeat(scale(track, ratio), repetitions)\<close>, where
  \<open>repetitions = PHRASE_LEN * (duration / resolution) * ratio\<close> and \<open>ratio\<close> is the ratio
  of the note to the root, with the tick of its first event set to
  \<open>onsetTick / resolution * length(track) * PHRASE_LEN\<close>; \<open>PHRASE_LEN\<close> is 16.  With
  resolution 0 it fails with \<open>ZeroDivisionError\<close>.  This holds for every repeater.
\<close>

theorem fractalize_note_result:
  "(resolution \<noteq> 0 \<and> ratio_fn p = Inr ratio \<and> track_div trk ratio = Inr scaled
      \<and> pow_op scaled (Q_NOTE_PHRASE_LEN * (duration / resolution) * ratio) = Inr fract
      \<and> events fract \<noteq> []
    \<longrightarrow> fractalize_note pow_op resolution ratio_fn trk (p, duration, tk) =
          Inr \<lparr>events =
                 (events fract)
                   [0 := set_tick (tk / resolution * track_length trk * Q_NOTE_PHRASE_LEN)
                           (hd (events fract))],
               relative = relative fract\<rparr>)
   \<and> Q_NOTE_PHRASE_LEN = 16
   \<and> (resolution = 0 \<longrightarrow>
        fractalize_note pow_op resolution ratio_fn trk (p, duration, tk)
          = Inl ZeroDivisionError)"
  by (auto simp: fractalize_note_def Let_def Q_NOTE_PHRASE_LEN_def split: list.splits)

text \<open>
  A note at the pitch of the root, an eighth of a quarter note long.  Its ratio is the
  power with exponent 0, which is 1 for floats as for reals, and it is repeated twice.
\<close>

lemma ratio_wrt_root_unison: "ratio_wrt_root (powr) (Some 60) 60 = Inr 1"
  by (simp add: ratio_wrt_root_def get_ratio_def TWELVE_ROOT_TWO_def)

lemma unison_scaled:
  "track_div \<lparr>events = [NoteOnEvent 0 60 90, NoteOffEvent 96 60 0], relative = True\<rparr> 1
     = Inr \<lparr>events = [NoteOnEvent 0 60 90, NoteOffEvent 96 60 0], relative = True\<rparr>"
  by (simp add: track_div_def)

lemma unison_length:
  "track_length \<lparr>events = [NoteOnEvent (0::real) 60 90, NoteOffEvent 96 60 0], relative = True\<rparr>
     = 96"
  by (simp add: track_length_def)

lemma unison_twice:
  "whole_copies \<lparr>events = [NoteOnEvent 0 60 90, NoteOffEvent 96 60 0], relative = True\<rparr> 2
     = Inr \<lparr>events = [NoteOnEvent 0 60 90, NoteOffEvent 96 60 0,
                        NoteOnEvent 0 60 90, NoteOffEvent 96 60 0], relative = True\<rparr>"
  by (simp add: whole_copies_def track_length_def in_mode_def full_copies_def
      shift_tick_def make_ticks_abs_def make_ticks_rel_def upt_rec [of 0] numeral_eq_Suc)

lemma reps_two: "Q_NOTE_PHRASE_LEN * (12 / 96) * 1 = 2"
  by (simp add: Q_NOTE_PHRASE_LEN_def)

theorem fractalize_note_result_witness:
  "fractalize_note whole_copies 96 (ratio_wrt_root (powr) (Some 60))
      \<lparr>events = [NoteOnEvent 0 60 90, NoteOffEvent 96 60 0], relative = True\<rparr> (60, 12, 96)
     = Inr \<lparr>events = [NoteOnEvent 1536 60 90, NoteOffEvent 96 60 0,
                      NoteOnEvent 0 60 90, NoteOffEvent 96 60 0], relative = True\<rparr>
   \<and> fractalize_note whole_copies 0 (ratio_wrt_root (powr) (Some 60))
      \<lparr>events = [NoteOnEvent 0 60 90, NoteOffEvent 96 60 0], relative = True\<rparr> (60, 12, 96)
     = Inl ZeroDivisionError"
proof -
  have a: "fractalize_note whole_copies 96 (ratio_wrt_root (powr) (Some 60))
      \<lparr>events = [NoteOnEvent 0 60 90, NoteOffEvent 96 60 0], relative = True\<rparr> (60, 12, 96)
     = Inr \<lparr>events = [NoteOnEvent 1536 60 90, NoteOffEvent 96 60 0,
                      NoteOnEvent 0 60 90, NoteOffEvent 96 60 0], relative = True\<rparr>"
    using fractalize_note_result [of 96 "ratio_wrt_root (powr) (Some 60)" 60 1
      "\<lparr>events = [NoteOnEvent 0 60 90, NoteOffEvent 96 60 0], relative = True\<rparr>"
      "\<lparr>events = [NoteOnEvent 0 60 90, NoteOffEvent 96 60 0], relative = True\<rparr>"
      whole_copies 12
      "\<lparr>events = [NoteOnEvent 0 60 90, NoteOffEvent 96 60 0,
                  NoteOnEvent 0 60 90, NoteOffEvent 96 60 0], relative = True\<rparr>" 96]
    unfolding ratio_wrt_root_unison reps_two unison_twice unison_scaled unison_length
    by (simp add: Q_NOTE_PHRASE_LEN_def)
  have b: "fractalize_note whole_copies 0 (ratio_wrt_root (powr) (Some 60))
      \<lparr>events = [NoteOnEvent 0 60 90, NoteOffEvent 96 60 0], relative = True\<rparr> (60, 12, 96)
     = Inl ZeroDivisionError"
    using fractalize_note_result [of 0 "ratio_wrt_root (powr) (Some 60)" 60 1
      "\<lparr>events = [NoteOnEvent 0 60 90, NoteOffEvent 96 60 0], relative = True\<rparr>"
      "\<lparr>events = [NoteOnEvent 0 60 90, NoteOffEvent 96 60 0], relative = True\<rparr>"
      whole_copies 12
      "\<lparr>events = [NoteOnEvent 0 60 90, NoteOffEvent 96 60 0,
                  NoteOnEvent 0 60 90, NoteOffEvent 96 60 0], relative = True\<rparr>" 96]
    by simp
  from a b show ?thesis by (intro conjI)
qed

text \<open>
  C1 as stated fails for resolution 0: \<open>duration / resolution\<close> raises and no track is
  returned.
\<close>

theorem fractalize_note_failure_counterexample:
  "fractalize_note whole_copies 0 (ratio_wrt_root (powr) (Some 60))
      \<lparr>events = [NoteOnEvent 0 60 90, NoteOffEvent 96 60 0], relative = True\<rparr> (60, 96, 0)
     = Inl ZeroDivisionError"
  by (simp add: fractalize_note_def)

end
